theory Spec2Isabelle
  imports Complex_Main "HOL-Library.Word" "HOL-Library.Sublist"
begin

section \<open>Shared vocabulary: what a fetch can produce\<close>

text \<open>
  A JavaScript \<^verbatim>\<open>catch\<close> receives either an \<^verbatim>\<open>Error\<close> object (with its
  \<^verbatim>\<open>message\<close>) or some other thrown value.
\<close>

datatype thrown = ErrorObject string | OtherValue

text \<open>
  \<^verbatim>\<open>await res.json()\<close> either throws (the body is not JSON) or yields the parsed value.
  \<^verbatim>\<open>await fetch(...)\<close> either rejects or yields a response with its HTTP status, whose
  body is read afterwards.
\<close>

datatype 'a parsed = Throws thrown | Value 'a

datatype 'a fetched = Rejected thrown | Response nat "'a parsed"

text \<open>\<^verbatim>\<open>res.ok\<close>: the status is in the range 200 to 299.\<close>

definition ok :: "nat \<Rightarrow> bool" where
  "ok st \<longleftrightarrow> 200 \<le> st \<and> st \<le> 299"

text \<open>A request as a handler issues it: the method, the URL and (for POST) the JSON body.\<close>

datatype 'b request = Get string | Post string 'b

text \<open>The page posts the JSON object \<^verbatim>\<open>{ text: script }\<close>: a list of fields.\<close>

type_synonym page_request = "(string \<times> 16 word list) list request"

text \<open>
  A member read off a parsed answer where \<^verbatim>\<open>undefined\<close> and \<^verbatim>\<open>null\<close> behave
  differently (a template literal prints them as \<^verbatim>\<open>undefined\<close> and \<^verbatim>\<open>null\<close>).
\<close>

datatype 'a field = Undefined | Null | Defined 'a

section \<open>The page component (frontend/app/page.tsx)\<close>

text \<open>
  The script is kept as its UTF-16 code units, since \<^verbatim>\<open>script.length\<close> counts code units
  and \<^verbatim>\<open>script.trim()\<close> is defined on them. All other texts are opaque strings.
\<close>

type_synonym utf16 = "16 word list"

definition MAX_CHARS :: nat where
  "MAX_CHARS = 2200"

datatype AppState = Idle | Pending | Processing | Done | Error

text \<open>
  The \<^verbatim>\<open>status\<close> member of a parsed body: one of the four values of
  \<^verbatim>\<open>PollResponse\<close>, or \<open>st_other\<close> for anything else or none at all (as in the body
  of an error answer, which is no \<^verbatim>\<open>PollResponse\<close>).
\<close>

datatype job_status = st_pending | st_processing | st_done | st_error | st_other

text \<open>
  \<^verbatim>\<open>interface PollResponse\<close>: the optional fields are options; \<^verbatim>\<open>progress\<close> is optional
  here too because the code reads it as \<^verbatim>\<open>data.progress ?? 0\<close>.
\<close>

record PollResponse =
  data_status :: job_status
  data_progress :: "int option"
  data_message :: "string option"
  data_url :: "string option"
  data_error :: "string option"

text \<open>
  What \<^verbatim>\<open>handleGenerate\<close> reads of the answer to its POST: \<^verbatim>\<open>data?.detail\<close> and
  \<^verbatim>\<open>data?.error\<close> (each as the text the \<^verbatim>\<open>Error\<close> constructor makes of it; absent or
  null is \<open>None\<close>, as \<^verbatim>\<open>??\<close> treats the two alike), and \<^verbatim>\<open>jobId\<close> (as the text the
  template literal prints for it).
\<close>

record GenerateData =
  detail :: "string option"
  error :: "string option"
  jobId :: "string field"

text \<open>
  The \<^verbatim>\<open>useState\<close> cells of the component, its \<^verbatim>\<open>pollRef\<close>, and the intervals it has
  installed and not cleared: \<^verbatim>\<open>setInterval(() => pollStatus(jobId), 2000)\<close> returns a
  fresh handle, and the timer it installs keeps the job identifier its callback captured.
  \<open>handles\<close> counts the handles given out so far.
\<close>

record Home =
  script :: utf16
  appState :: AppState
  progress :: int
  statusMessage :: string
  videoUrl :: "string option"
  errorMsg :: "string option"
  pollRef :: "nat option"
  timers :: "(nat \<times> string field) list"
  handles :: nat

definition initial :: Home where
  "initial = \<lparr>script = [], appState = Idle, progress = 0, statusMessage = [],
     videoUrl = None, errorMsg = None, pollRef = None, timers = [], handles = 0\<rparr>"

text \<open>
  ECMAScript white space and line terminators, the code units \<^verbatim>\<open>String.prototype.trim\<close>
  strips (all of them lie in the Basic Multilingual Plane).
\<close>

definition isWhiteSpace :: "16 word \<Rightarrow> bool" where
  "isWhiteSpace u \<longleftrightarrow>
     u \<in> set [0x0009, 0x000A, 0x000B, 0x000C, 0x000D, 0x0020, 0x00A0, 0x1680,
               0x2028, 0x2029, 0x202F, 0x205F, 0x3000, 0xFEFF]
     \<or> (0x2000 \<le> u \<and> u \<le> 0x200A)"

definition trim :: "utf16 \<Rightarrow> utf16" where
  "trim s = rev (dropWhile isWhiteSpace (rev (dropWhile isWhiteSpace s)))"

text \<open>Decimal digits of a number, for the template literal \<^verbatim>\<open>`Server error ${res.status}`\<close>.\<close>

fun decimal :: "nat \<Rightarrow> string" where
  "decimal n = (if n < 10 then [''0123456789'' ! n]
                else decimal (n div 10) @ [''0123456789'' ! (n mod 10)])"

text \<open>
  \<^verbatim>\<open>stopPolling\<close>: \<^verbatim>\<open>clearInterval(pollRef.current)\<close> removes the timer with that handle
  (a request that timer has already sent is not withdrawn), and \<^verbatim>\<open>pollRef\<close> becomes null.
\<close>

definition stopPolling :: "Home \<Rightarrow> Home" where
  "stopPolling c =
     (case pollRef c of
        None \<Rightarrow> c
      | Some h \<Rightarrow> c\<lparr>timers := filter (\<lambda>t. fst t \<noteq> h) (timers c), pollRef := None\<rparr>)"

text \<open>\<^verbatim>\<open>pollRef.current = setInterval(() => pollStatus(jobId), 2000)\<close>\<close>

definition setInterval :: "string field \<Rightarrow> Home \<Rightarrow> Home" where
  "setInterval j c = c\<lparr>timers := timers c @ [(handles c, j)], pollRef := Some (handles c),
     handles := handles c + 1\<rparr>"

text \<open>The URL \<^verbatim>\<open>`/api/status/${jobId}`\<close>.\<close>

definition status_url :: "string field \<Rightarrow> string" where
  "status_url j = ''/api/status/'' @
     (case j of Undefined \<Rightarrow> ''undefined'' | Null \<Rightarrow> ''null'' | Defined i \<Rightarrow> i)"

text \<open>
  \<^verbatim>\<open>pollStatus\<close>: the request it sends when called, and the state its continuation leaves
  when the answer \<open>res\<close> arrives in state \<open>c\<close>. The whole body is inside \<^verbatim>\<open>try\<close> with an
  empty \<^verbatim>\<open>catch\<close>: a rejected fetch, a body that is not JSON, and a body that is
  \<^verbatim>\<open>null\<close> (reading \<^verbatim>\<open>data.progress\<close> throws) all leave the component as it was. The
  continuation reads no state: it writes whatever \<open>c\<close> has become since the request was
  sent.
\<close>

definition pollStatus ::
    "string field \<Rightarrow> PollResponse option fetched \<Rightarrow> Home \<Rightarrow> Home \<times> page_request list" where
  "pollStatus j res c =
     ((case res of
         Rejected _ \<Rightarrow> c
       | Response st b \<Rightarrow>
           if \<not> ok st then c
           else (case b of
               Throws _ \<Rightarrow> c
             | Value None \<Rightarrow> c
             | Value (Some data) \<Rightarrow>
                 let c1 = c\<lparr>progress := (case data_progress data of Some p \<Rightarrow> p | None \<Rightarrow> 0)\<rparr>;
                     c2 = (case data_message data of
                             Some m \<Rightarrow> if m \<noteq> [] then c1\<lparr>statusMessage := m\<rparr> else c1
                           | None \<Rightarrow> c1)
                 in if data_status data = st_done
                    then (stopPolling c2)\<lparr>appState := Done, videoUrl := data_url data\<rparr>
                    else if data_status data = st_error
                    then (stopPolling c2)\<lparr>appState := Error,
                           errorMsg := Some (case data_error data of
                                               Some e \<Rightarrow> e
                                             | None \<Rightarrow> ''An unknown error occurred.'')\<rparr>
                    else c2)),
      [Get (status_url j)])"

definition isProcessing :: "Home \<Rightarrow> bool" where
  "isProcessing c \<longleftrightarrow> appState c = Pending \<or> appState c = Processing"

definition charCount :: "Home \<Rightarrow> nat" where
  "charCount c = length (script c)"

definition isOverLimit :: "Home \<Rightarrow> bool" where
  "isOverLimit c \<longleftrightarrow> charCount c > MAX_CHARS"

definition canGenerate :: "Home \<Rightarrow> bool" where
  "canGenerate c \<longleftrightarrow> length (trim (script c)) > 0 \<and> \<not> isProcessing c \<and> \<not> isOverLimit c"

text \<open>
  The message of the \<^verbatim>\<open>TypeError\<close> that destructuring \<^verbatim>\<open>null\<close> throws; its wording is
  the engine's.
\<close>

definition destructure_null :: thrown where
  "destructure_null = ErrorObject ''Cannot destructure property jobId of data as it is null.''"

text \<open>
  The \<^verbatim>\<open>try\<close> block of \<^verbatim>\<open>handleGenerate\<close> after the fetch: what is thrown (\<open>Inl\<close>), or
  the job identifier read from the answer (\<open>Inr\<close>).
\<close>

definition submitted :: "GenerateData option fetched \<Rightarrow> thrown + string field" where
  "submitted res =
     (case res of
        Rejected t \<Rightarrow> Inl t
      | Response st (Throws t) \<Rightarrow> Inl t
      | Response st (Value None) \<Rightarrow>
          if \<not> ok st then Inl (ErrorObject (''Server error '' @ decimal st))
          else Inl destructure_null
      | Response st (Value (Some data)) \<Rightarrow>
          if \<not> ok st
          then Inl (ErrorObject (case detail data of
                                  Some d \<Rightarrow> d
                                | None \<Rightarrow> (case error data of
                                             Some e \<Rightarrow> e
                                           | None \<Rightarrow> ''Server error '' @ decimal st)))
          else Inr (jobId data))"

text \<open>\<^verbatim>\<open>err instanceof Error ? err.message : "Failed to start job."\<close>\<close>

definition message_of :: "thrown \<Rightarrow> string" where
  "message_of t = (case t of ErrorObject m \<Rightarrow> m | OtherValue \<Rightarrow> ''Failed to start job.'')"

text \<open>
  \<^verbatim>\<open>handleGenerate\<close>, run to completion with the outcome of its fetch given as an
  argument. The first line is the guard; behind it no state is written and no request
  is made.
\<close>

definition handleGenerate ::
    "GenerateData option fetched \<Rightarrow> Home \<Rightarrow> Home \<times> page_request list" where
  "handleGenerate res c =
     (if trim (script c) = [] \<or> isProcessing c \<or> charCount c > MAX_CHARS then (c, [])
      else
        let c1 = (stopPolling c)\<lparr>appState := Pending, errorMsg := None, videoUrl := None,
                   progress := 0, statusMessage := ''Submitting job...''\<rparr>
        in ((case submitted res of
               Inr j \<Rightarrow> setInterval j (c1\<lparr>appState := Processing,
                          statusMessage := ''Generating voiceover...''\<rparr>)
             | Inl err \<Rightarrow> c1\<lparr>appState := Error, errorMsg := Some (message_of err)\<rparr>),
            [Post ''/api/generate'' [(''text'', script c)]]))"

text \<open>
  The same handler in the two parts the \<^verbatim>\<open>await fetch\<close> splits it into: what runs on
  the click (the guard, the writes before the \<^verbatim>\<open>try\<close>, the request), and what runs when
  the answer arrives, in whatever state the component then is.
\<close>

definition handleGenerate_start :: "Home \<Rightarrow> Home \<times> page_request list" where
  "handleGenerate_start c =
     (if trim (script c) = [] \<or> isProcessing c \<or> charCount c > MAX_CHARS then (c, [])
      else ((stopPolling c)\<lparr>appState := Pending, errorMsg := None, videoUrl := None,
               progress := 0, statusMessage := ''Submitting job...''\<rparr>,
            [Post ''/api/generate'' [(''text'', script c)]]))"

definition handleGenerate_resume :: "GenerateData option fetched \<Rightarrow> Home \<Rightarrow> Home" where
  "handleGenerate_resume res c =
     (case submitted res of
        Inr j \<Rightarrow> setInterval j (c\<lparr>appState := Processing,
                   statusMessage := ''Generating voiceover...''\<rparr>)
      | Inl err \<Rightarrow> c\<lparr>appState := Error, errorMsg := Some (message_of err)\<rparr>)"

definition handleReset :: "Home \<Rightarrow> Home" where
  "handleReset c = (stopPolling c)\<lparr>appState := Idle, progress := 0, statusMessage := [],
     videoUrl := None, errorMsg := None\<rparr>"



subsection \<open>The page and its requests in flight\<close>

text \<open>
  The component together with the requests it has sent and that are not answered yet:
  the number of POSTs to /api/generate, and the status requests in the order they were
  sent, each with the job identifier it asks about.
\<close>

record Page =
  home :: Home
  posts :: nat
  polls :: "string field list"

definition loaded :: Page where
  "loaded = \<lparr>home = initial, posts = 0, polls = []\<rparr>"

text \<open>
  What can happen to the page. The user types (the textarea is disabled while a job is
  pending or processing), clicks Generate (the button is disabled unless \<open>canGenerate\<close>)
  or clicks one of the two reset buttons (the error panel is rendered for
  \<^verbatim>\<open>appState === "error" && errorMsg\<close>, the preview for \<^verbatim>\<open>appState === "done" && videoUrl\<close>).
  An installed timer fires and calls \<^verbatim>\<open>pollStatus\<close>, which sends a status request. The
  answer to a request in flight arrives, at any later time and in any order, and the
  continuation of the handler that sent it runs. (The download button writes no state
  and is left out.)
\<close>

datatype event =
    SetScript utf16
  | ClickGenerate
  | ClickReset
  | TimerFires nat
  | GenerateAnswered "GenerateData option fetched"
  | StatusAnswered nat "PollResponse option fetched"


definition shown :: "string option \<Rightarrow> bool" where
  "shown t = (case t of None \<Rightarrow> False | Some s \<Rightarrow> s \<noteq> [])"

definition reset_offered :: "Home \<Rightarrow> bool" where
  "reset_offered c \<longleftrightarrow>
     (appState c = Error \<and> shown (errorMsg c)) \<or> (appState c = Done \<and> shown (videoUrl c))"

fun fire :: "event \<Rightarrow> Page \<Rightarrow> Page" where
  "fire (SetScript s) p =
     (if isProcessing (home p) then p else p\<lparr>home := (home p)\<lparr>script := s\<rparr>\<rparr>)"
| "fire ClickGenerate p =
     (if canGenerate (home p)
      then p\<lparr>home := fst (handleGenerate_start (home p)),
             posts := posts p + length (snd (handleGenerate_start (home p)))\<rparr>
      else p)"
| "fire ClickReset p =
     (if reset_offered (home p) then p\<lparr>home := handleReset (home p)\<rparr> else p)"
| "fire (TimerFires h) p =
     (case map_of (timers (home p)) h of
        None \<Rightarrow> p
      | Some j \<Rightarrow> p\<lparr>polls := polls p @ [j]\<rparr>)"
| "fire (GenerateAnswered res) p =
     (if 0 < posts p
      then p\<lparr>home := handleGenerate_resume res (home p), posts := posts p - 1\<rparr>
      else p)"
| "fire (StatusAnswered k res) p =
     (if k < length (polls p)
      then p\<lparr>home := fst (pollStatus (polls p ! k) res (home p)),
             polls := take k (polls p) @ drop (Suc k) (polls p)\<rparr>
      else p)"

definition run :: "event list \<Rightarrow> Page \<Rightarrow> Page" where
  "run evs p = foldl (\<lambda>s e. fire e s) p evs"

text \<open>
  Modelled from the spec: a status read of a job that is done carries the result location
  (section 8: \<^verbatim>\<open>resultLocation\<close> is present if and only if the status is done). The
  job store is backend code, not among the sources. Every other event passes.
\<close>

fun done_with_url :: "event \<Rightarrow> bool" where
  "done_with_url (StatusAnswered k (Response st (Value (Some data)))) =
     (data_status data \<noteq> st_done \<or> data_url data \<noteq> None)"
| "done_with_url _ = True"

section \<open>The proxy routes (frontend/app/api)\<close>

text \<open>
  A number as \<^verbatim>\<open>JSON.parse\<close> yields it: a double, which is a finite value, negative
  zero, or (for a literal beyond the range of doubles, such as \<^verbatim>\<open>1e400\<close>) an infinity.
  The rounding of a literal to its double is not modelled: a finite number stands for
  the double already.
\<close>

datatype number = Finite rat | NegativeZero | PlusInfinity | MinusInfinity

text \<open>
  A parsed JSON value. An object is the list of its members in property order;
  \<^verbatim>\<open>JSON.parse\<close> leaves no key twice.
\<close>

datatype json =
    JNull
  | JBool bool
  | JNumber number
  | JString string
  | JArray "json list"
  | JObject "(string \<times> json) list"

text \<open>JavaScript truthiness of a parsed JSON value.\<close>

fun truthy :: "json \<Rightarrow> bool" where
  "truthy JNull = False"
| "truthy (JBool b) = b"
| "truthy (JNumber n) = (n \<noteq> Finite 0 \<and> n \<noteq> NegativeZero)"
| "truthy (JString s) = (s \<noteq> [])"
| "truthy (JArray _) = True"
| "truthy (JObject _) = True"

text \<open>
  Reading a member such as \<^verbatim>\<open>data.url\<close> or \<^verbatim>\<open>body.text\<close> of a value that is not
  \<^verbatim>\<open>null\<close>: \<open>None\<close> is \<^verbatim>\<open>undefined\<close>. Only an object has such a member.
\<close>

definition property :: "string \<Rightarrow> json \<Rightarrow> json option" where
  "property k j = (case j of JObject kvs \<Rightarrow> map_of kvs k | _ \<Rightarrow> None)"

text \<open>Assigning a member: an existing key keeps its place, a new one is added last.\<close>

fun set_property :: "string \<Rightarrow> json \<Rightarrow> (string \<times> json) list \<Rightarrow> (string \<times> json) list" where
  "set_property k v [] = [(k, v)]"
| "set_property k v (p # ps) = (if fst p = k then (k, v) # ps else p # set_property k v ps)"

text \<open>
  What \<^verbatim>\<open>JSON.stringify\<close> writes for a parsed value, given as the value a reader parses
  from that text: an infinity is written as \<^verbatim>\<open>null\<close> and negative zero as \<^verbatim>\<open>0\<close>;
  everything else is written as it is.
\<close>

primrec written :: "json \<Rightarrow> json" where
  "written JNull = JNull"
| "written (JBool b) = JBool b"
| "written (JNumber n) =
     (case n of
        Finite r \<Rightarrow> JNumber (Finite r)
      | NegativeZero \<Rightarrow> JNumber (Finite 0)
      | PlusInfinity \<Rightarrow> JNull
      | MinusInfinity \<Rightarrow> JNull)"
| "written (JString s) = JString s"
| "written (JArray xs) = JArray (map written xs)"
| "written (JObject kvs) = JObject (map (map_prod id written) kvs)"

text \<open>A value that holds no infinity and no negative zero.\<close>

primrec plain :: "json \<Rightarrow> bool" where
  "plain JNull = True"
| "plain (JBool b) = True"
| "plain (JNumber n) = (case n of Finite r \<Rightarrow> True | _ \<Rightarrow> False)"
| "plain (JString s) = True"
| "plain (JArray xs) = list_all plain xs"
| "plain (JObject kvs) = list_all (pred_prod (\<lambda>k. True) plain) kvs"

text \<open>
  \<^verbatim>\<open>NextResponse.json(data, { status })\<close>. The response constructor throws a
  \<^verbatim>\<open>RangeError\<close> for a status outside 200..599, and a \<^verbatim>\<open>TypeError\<close> for a status that
  allows no body (204, 205, 304); otherwise the response carries the status and the
  text written for \<open>data\<close>.
\<close>

record NextResponse =
  status :: nat
  body :: json

definition can_respond :: "nat \<Rightarrow> bool" where
  "can_respond st \<longleftrightarrow> 200 \<le> st \<and> st \<le> 599 \<and> st \<noteq> 204 \<and> st \<noteq> 205 \<and> st \<noteq> 304"

definition RangeError :: thrown where
  "RangeError = ErrorObject ''RangeError''"

definition TypeError :: thrown where
  "TypeError = ErrorObject ''TypeError''"

definition NextResponse_json :: "json \<Rightarrow> nat \<Rightarrow> NextResponse parsed" where
  "NextResponse_json data st =
     (if st < 200 \<or> 599 < st then Throws RangeError
      else if st = 204 \<or> st = 205 \<or> st = 304 then Throws TypeError
      else Value \<lparr>status = st, body = written data\<rparr>)"

text \<open>The answer each route gives from its \<^verbatim>\<open>catch\<close>.\<close>

definition bad_gateway :: "string \<Rightarrow> NextResponse" where
  "bad_gateway msg = \<lparr>status = 502, body = JObject [(''error'', JString msg)]\<rparr>"

subsection \<open>GET /api/status/[jobId]\<close>

text \<open>\<^verbatim>\<open>process.env.NEXT_PUBLIC_BACKEND_URL ?? "http://localhost:8000"\<close> of the status route.\<close>

definition status_BACKEND_URL :: "string option \<Rightarrow> string" where
  "status_BACKEND_URL env = (case env of None \<Rightarrow> ''http://localhost:8000'' | Some u \<Rightarrow> u)"

text \<open>
  The rewriting of a relative video URL, \<^verbatim>\<open>if (data.url && !data.url.startsWith("http"))
  data.url = `${BACKEND_URL}${data.url}`\<close>. Reading \<^verbatim>\<open>data.url\<close> of \<^verbatim>\<open>null\<close> throws,
  and so does calling \<^verbatim>\<open>startsWith\<close> on a truthy value that is not a string.
\<close>

definition rewrite_url :: "string \<Rightarrow> json \<Rightarrow> json parsed" where
  "rewrite_url base data =
     (case data of
        JNull \<Rightarrow> Throws TypeError
      | JObject kvs \<Rightarrow>
          (case map_of kvs ''url'' of
             None \<Rightarrow> Value data
           | Some u \<Rightarrow>
               if \<not> truthy u then Value data
               else (case u of
                   JString s \<Rightarrow>
                     if prefix ''http'' s then Value data
                     else Value (JObject (set_property ''url'' (JString (base @ s)) kvs))
                 | _ \<Rightarrow> Throws TypeError))
      | _ \<Rightarrow> Value data)"

text \<open>
  The route: everything after the fetch is inside the \<^verbatim>\<open>try\<close>, so whatever throws there
  (the body is not JSON, the rewriting, the response constructor) ends in the \<^verbatim>\<open>catch\<close>.
\<close>

definition GET :: "string option \<Rightarrow> string \<Rightarrow> json fetched \<Rightarrow> NextResponse \<times> json request list" where
  "GET env job upstream =
     ((case upstream of
         Rejected _ \<Rightarrow> bad_gateway ''Could not reach the backend.''
       | Response st (Throws _) \<Rightarrow> bad_gateway ''Could not reach the backend.''
       | Response st (Value data) \<Rightarrow>
           (case rewrite_url (status_BACKEND_URL env) data of
              Throws _ \<Rightarrow> bad_gateway ''Could not reach the backend.''
            | Value data' \<Rightarrow>
                (case NextResponse_json data' st of
                   Throws _ \<Rightarrow> bad_gateway ''Could not reach the backend.''
                 | Value r \<Rightarrow> r))),
      [Get (status_BACKEND_URL env @ ''/jobs/'' @ job)])"

subsection \<open>POST /api/generate\<close>

definition raw :: "string option \<Rightarrow> string" where
  "raw env = (case env of None \<Rightarrow> ''http://localhost:8000'' | Some u \<Rightarrow> u)"

text \<open>\<^verbatim>\<open>raw.startsWith("http") ? raw : `https://${raw}`\<close>\<close>

definition BACKEND_URL :: "string option \<Rightarrow> string" where
  "BACKEND_URL env = (if prefix ''http'' (raw env) then raw env else ''https://'' @ raw env)"

text \<open>
  \<^verbatim>\<open>JSON.stringify({ text: body.text })\<close>: a member whose value is \<^verbatim>\<open>undefined\<close> is
  left out of the text.
\<close>

definition forwarded :: "json \<Rightarrow> json" where
  "forwarded b =
     JObject (case property ''text'' b of None \<Rightarrow> [] | Some t \<Rightarrow> [(''text'', written t)])"

text \<open>
  The route, given what \<^verbatim>\<open>request.json()\<close> yields and the outcome of the fetch to the
  backend. A request body that is not JSON, or is \<^verbatim>\<open>null\<close> (reading \<^verbatim>\<open>body.text\<close>
  throws), ends in the \<^verbatim>\<open>catch\<close> before anything is sent.
\<close>

definition POST :: "string option \<Rightarrow> json parsed \<Rightarrow> json fetched \<Rightarrow> NextResponse \<times> json request list" where
  "POST env request_json upstream =
     (case request_json of
        Throws _ \<Rightarrow> (bad_gateway ''Could not reach the backend. Is it running?'', [])
      | Value JNull \<Rightarrow> (bad_gateway ''Could not reach the backend. Is it running?'', [])
      | Value b \<Rightarrow>
          ((case upstream of
              Rejected _ \<Rightarrow> bad_gateway ''Could not reach the backend. Is it running?''
            | Response st (Throws _) \<Rightarrow> bad_gateway ''Could not reach the backend. Is it running?''
            | Response st (Value data) \<Rightarrow>
                (case NextResponse_json data st of
                   Throws _ \<Rightarrow> bad_gateway ''Could not reach the backend. Is it running?''
                 | Value r \<Rightarrow> r)),
           [Post (BACKEND_URL env @ ''/jobs'') (forwarded b)]))"

section \<open>The Caption Timer\<close>

text \<open>
  Modelled from the spec: the Caption Timer (\<^verbatim>\<open>computeCues\<close>, section 4.2; the backend's
  video.py is not among the sources). Zero words is an \<open>InvalidInput\<close> failure; otherwise
  cue \<open>i\<close> of \<open>N\<close> spans from \<open>i * durationSeconds / N\<close> to \<open>(i + 1) * durationSeconds / N\<close>,
  and the last cue's end is set to \<open>durationSeconds\<close> itself. Seconds are exact rationals
  here; the rounding of floating-point arithmetic is not modelled.
\<close>

datatype failure = InvalidInput

record CaptionCue =
  word :: string
  startSeconds :: rat
  endSeconds :: rat

definition computeCues :: "string list \<Rightarrow> rat \<Rightarrow> failure + CaptionCue list" where
  "computeCues words durationSeconds =
     (let N = length words in
      if N = 0 then Inl InvalidInput
      else Inr (map (\<lambda>i. \<lparr>word = words ! i,
                            startSeconds = of_nat i * durationSeconds / of_nat N,
                            endSeconds = (if i + 1 = N then durationSeconds
                                          else of_nat (i + 1) * durationSeconds / of_nat N)\<rparr>)
                     [0..<N]))"

section \<open>Sample data\<close>

text \<open>
  Sample inputs for the concrete instances: the script \<^verbatim>\<open>Hi\<close>, the backend's answer
  \<^verbatim>\<open>202 { jobId }\<close>, a status snapshot answered with 200, and the component while it
  polls job \<^verbatim>\<open>j1\<close> with the timer of handle 0.
\<close>

definition sample_script :: utf16 where
  "sample_script = [0x48, 0x69]"

definition accepted :: "string \<Rightarrow> GenerateData option fetched" where
  "accepted j = Response 202 (Value (Some \<lparr>detail = None, error = None, jobId = Defined j\<rparr>))"

definition snapshot ::
    "job_status \<Rightarrow> int \<Rightarrow> string option \<Rightarrow> string option \<Rightarrow> PollResponse option fetched" where
  "snapshot s p u e = Response 200 (Value (Some \<lparr>data_status = s, data_progress = Some p,
     data_message = None, data_url = u, data_error = e\<rparr>))"

definition polling :: Home where
  "polling = \<lparr>script = sample_script, appState = Processing, progress = 0,
     statusMessage = ''Generating voiceover...'', videoUrl = None, errorMsg = None,
     pollRef = Some 0, timers = [(0, Defined ''j1'')], handles = 1\<rparr>"

section \<open>The guard of handleGenerate\<close>

lemma dropWhile_all: "(\<forall>u\<in>set s. P u) \<Longrightarrow> dropWhile P s = []"
  by (induction s) auto

lemma trim_empty_iff: "trim s = [] \<longleftrightarrow> (\<forall>u\<in>set s. isWhiteSpace u)"
proof
  assume "trim s = []"
  then have "dropWhile isWhiteSpace (rev (dropWhile isWhiteSpace s)) = []"
    by (simp add: trim_def)
  then have tail: "\<forall>u\<in>set (dropWhile isWhiteSpace s). isWhiteSpace u"
    by (simp add: dropWhile_eq_Nil_conv)
  show "\<forall>u\<in>set s. isWhiteSpace u"
  proof (cases "dropWhile isWhiteSpace s")
    case Nil
    then show ?thesis by (simp add: dropWhile_eq_Nil_conv)
  next
    case (Cons x xs)
    then have "\<not> isWhiteSpace x" using hd_dropWhile [of isWhiteSpace s] by simp
    moreover have "isWhiteSpace x" using tail Cons by simp
    ultimately show ?thesis by simp
  qed
next
  assume "\<forall>u\<in>set s. isWhiteSpace u"
  then show "trim s = []" by (simp add: trim_def dropWhile_all)
qed

lemma decimal_502: "decimal 502 = ''502''"
  by simp

text \<open>
  C1. A script longer than \<open>MAX_CHARS\<close> (2200 code units): \<open>handleGenerate\<close> returns at
  its guard, leaving the component unchanged and issuing no request (no POST to
  /api/generate, hence no job), whatever the fetch would have answered; and the button
  predicate \<open>canGenerate\<close> is false. The same holds of the part of the handler that runs
  on the click.
\<close>

theorem over_limit_no_submission:
  assumes "length (script c) > MAX_CHARS"
  shows "handleGenerate res c = (c, []) \<and> \<not> canGenerate c \<and> handleGenerate_start c = (c, [])"
  using assms
  by (simp add: handleGenerate_def handleGenerate_start_def canGenerate_def isOverLimit_def
      charCount_def)

theorem over_limit_no_submission_witness:
  "length (script (initial\<lparr>script := replicate 2201 0x61\<rparr>)) > MAX_CHARS
   \<and> MAX_CHARS = 2200
   \<and> handleGenerate (Response 202 (Value (Some \<lparr>detail = None, error = None, jobId = Defined ''j1''\<rparr>)))
        (initial\<lparr>script := replicate 2201 0x61\<rparr>)
      = (initial\<lparr>script := replicate 2201 0x61\<rparr>, [])
   \<and> \<not> canGenerate (initial\<lparr>script := replicate 2201 0x61\<rparr>)"
  using over_limit_no_submission [of "initial\<lparr>script := replicate 2201 0x61\<rparr>"
      "Response 202 (Value (Some \<lparr>detail = None, error = None, jobId = Defined ''j1''\<rparr>))"]
  by (simp add: MAX_CHARS_def)

text \<open>
  C2. A script that is empty or consists of white space only: \<open>handleGenerate\<close> returns
  at its guard, so the component state is unchanged and no request is issued (no external
  call, nothing created), whatever the fetch would have answered; the button predicate is
  false as well. The same holds of the part of the handler that runs on the click.
\<close>

theorem blank_script_no_call:
  assumes "\<forall>u\<in>set (script c). isWhiteSpace u"
  shows "handleGenerate res c = (c, []) \<and> \<not> canGenerate c \<and> handleGenerate_start c = (c, [])"
  using assms trim_empty_iff [of "script c"]
  by (simp add: handleGenerate_def handleGenerate_start_def canGenerate_def)

theorem blank_script_no_call_witness:
  "handleGenerate (Rejected OtherValue) (initial\<lparr>script := [0x20, 0x0A, 0x2003]\<rparr>)
      = (initial\<lparr>script := [0x20, 0x0A, 0x2003]\<rparr>, [])
   \<and> handleGenerate (Rejected OtherValue) initial = (initial, [])"
proof -
  have h1: "\<forall>u\<in>set (script (initial\<lparr>script := [0x20, 0x0A, 0x2003]\<rparr>)). isWhiteSpace u"
    by (simp add: isWhiteSpace_def)
  have h2: "\<forall>u\<in>set (script initial). isWhiteSpace u"
    by (simp add: initial_def)
  show ?thesis
    using blank_script_no_call [OF h1, of "Rejected OtherValue"]
      blank_script_no_call [OF h2, of "Rejected OtherValue"]
    by simp
qed

section \<open>Status polling\<close>

lemma stopPolling_fields [simp]:
  "pollRef (stopPolling c) = None"
  "appState (stopPolling c) = appState c"
  "videoUrl (stopPolling c) = videoUrl c"
  "errorMsg (stopPolling c) = errorMsg c"
  "progress (stopPolling c) = progress c"
  "script (stopPolling c) = script c"
  "statusMessage (stopPolling c) = statusMessage c"
  "handles (stopPolling c) = handles c"
  by (simp_all add: stopPolling_def split: option.splits)

text \<open>
  C9. A poll whose fetch answers with a status outside 200..299, or is rejected, or whose
  body is not JSON or is \<^verbatim>\<open>null\<close>, leaves the whole component state as it was (the job view and the
  installed timer, so the next tick polls again); the only thing it did was its GET. And
  a poll moves the page into \<open>Error\<close> only when it received an ok response whose parsed body
  has status \<open>error\<close>.
\<close>

theorem failed_poll_leaves_view:
  "(\<not> ok st \<longrightarrow> pollStatus j (Response st b) c = (c, [Get (status_url j)]))
   \<and> pollStatus j (Rejected t) c = (c, [Get (status_url j)])
   \<and> pollStatus j (Response st (Throws t)) c = (c, [Get (status_url j)])
   \<and> pollStatus j (Response st (Value None)) c = (c, [Get (status_url j)])
   \<and> (appState (fst (pollStatus j res c)) = Error \<and> appState c \<noteq> Error \<longrightarrow>
        (\<exists>st' data. res = Response st' (Value (Some data)) \<and> ok st' \<and> data_status data = st_error))"
  by (auto simp: pollStatus_def Let_def split: fetched.splits parsed.splits option.splits if_splits)

theorem failed_poll_leaves_view_witness:
  "pollStatus (Defined ''j1'') (Response 502 (Value None)) polling
     = (polling, [Get ''/api/status/j1''])
   \<and> pollStatus (Defined ''j1'') (Rejected (ErrorObject ''Failed to fetch'')) polling
     = (polling, [Get ''/api/status/j1''])
   \<and> appState (fst (pollStatus (Defined ''j1'') (snapshot st_error 30 None (Some ''TTS failed'')) polling)) = Error
   \<and> appState polling = Processing
   \<and> (\<exists>st' data. snapshot st_error 30 None (Some ''TTS failed'') = Response st' (Value (Some data))
         \<and> ok st' \<and> data_status data = st_error)"
  using failed_poll_leaves_view [of 502 "Defined ''j1''" "Value None" polling
      "ErrorObject ''Failed to fetch''" "snapshot st_error 30 None (Some ''TTS failed'')"]
  by (simp add: ok_def status_url_def)
    (simp add: pollStatus_def snapshot_def ok_def polling_def Let_def)

section \<open>The two parts of handleGenerate\<close>

lemma handleGenerate_split:
  "handleGenerate res c =
     (if snd (handleGenerate_start c) = [] then (c, [])
      else (handleGenerate_resume res (fst (handleGenerate_start c)),
            snd (handleGenerate_start c)))"
  by (simp add: handleGenerate_def handleGenerate_start_def handleGenerate_resume_def Let_def
      split: sum.splits)

lemma run_append: "run (evs @ evs') p = run evs' (run evs p)"
  by (simp add: run_def)

lemma run_Cons: "run (e # evs) p = run evs (fire e p)"
  by (simp add: run_def)

lemma run_Nil: "run [] p = p"
  by (simp add: run_def)

lemma trim_sample_script: "trim sample_script = sample_script"
  by (simp add: trim_def sample_script_def isWhiteSpace_def)

lemma canGenerate_sample:
  "script c = sample_script \<Longrightarrow> canGenerate c \<longleftrightarrow> \<not> isProcessing c"
  by (simp add: canGenerate_def trim_sample_script isOverLimit_def charCount_def MAX_CHARS_def)
    (simp add: sample_script_def)

lemma start_sample:
  "script c = sample_script \<Longrightarrow> \<not> isProcessing c \<Longrightarrow>
     handleGenerate_start c =
       ((stopPolling c)\<lparr>appState := Pending, errorMsg := None, videoUrl := None,
           progress := 0, statusMessage := ''Submitting job...''\<rparr>,
        [Post ''/api/generate'' [(''text'', sample_script)]])"
  by (simp add: handleGenerate_start_def trim_sample_script charCount_def MAX_CHARS_def)
    (simp add: sample_script_def)

text \<open>The page after the script is typed, Generate is clicked and the job is accepted.\<close>

lemma polling_reached:
  "run [SetScript sample_script, ClickGenerate, GenerateAnswered (accepted ''j1'')] loaded
     = \<lparr>home = polling, posts = 0, polls = []\<rparr>"
  by (simp add: run_def loaded_def initial_def isProcessing_def canGenerate_sample start_sample
      stopPolling_def handleGenerate_resume_def submitted_def accepted_def ok_def setInterval_def
      polling_def)

text \<open>Two ticks of the timer: two status requests for the job are in flight.\<close>

lemma two_polls_in_flight:
  "run [SetScript sample_script, ClickGenerate, GenerateAnswered (accepted ''j1''),
        TimerFires 0, TimerFires 0] loaded
     = \<lparr>home = polling, posts = 0, polls = [Defined ''j1'', Defined ''j1'']\<rparr>"
  using run_append [of "[SetScript sample_script, ClickGenerate, GenerateAnswered (accepted ''j1'')]"
      "[TimerFires 0, TimerFires 0]" loaded]
  by (simp add: polling_reached) (simp add: run_def polling_def)

section \<open>Answers that arrive late\<close>

text \<open>
  What holds of the job view in every state the page reaches, late answers included: in
  \<open>Error\<close> an error message is held; and in \<open>Done\<close> a result location is held, as long as
  every done read carried one.
\<close>

lemma error_message_fire:
  assumes "appState (home p) = Error \<longrightarrow> errorMsg (home p) \<noteq> None"
  shows "appState (home (fire e p)) = Error \<longrightarrow> errorMsg (home (fire e p)) \<noteq> None"
proof (cases e)
  case (SetScript s)
  then show ?thesis using assms by simp
next
  case ClickGenerate
  then show ?thesis using assms by (simp add: handleGenerate_start_def)
next
  case ClickReset
  then show ?thesis using assms by (simp add: handleReset_def)
next
  case (TimerFires h)
  then show ?thesis using assms by (simp split: option.splits)
next
  case (GenerateAnswered res)
  then show ?thesis using assms
    by (simp add: handleGenerate_resume_def setInterval_def split: sum.splits)
next
  case (StatusAnswered k res)
  then show ?thesis using assms
    by (auto simp: pollStatus_def Let_def split: fetched.splits parsed.splits option.splits)
qed

lemma error_has_message:
  "appState (home (run evs loaded)) = Error \<longrightarrow> errorMsg (home (run evs loaded)) \<noteq> None"
proof (induction evs rule: rev_induct)
  case Nil
  then show ?case by (simp add: run_def loaded_def initial_def)
next
  case (snoc e evs)
  then show ?case using error_message_fire [of "run evs loaded" e]
    by (simp add: run_append run_Cons run_Nil)
qed

lemma done_url_fire:
  assumes "appState (home p) = Done \<longrightarrow> videoUrl (home p) \<noteq> None" and "done_with_url e"
  shows "appState (home (fire e p)) = Done \<longrightarrow> videoUrl (home (fire e p)) \<noteq> None"
proof (cases e)
  case (SetScript s)
  then show ?thesis using assms by simp
next
  case ClickGenerate
  then show ?thesis using assms by (simp add: handleGenerate_start_def)
next
  case ClickReset
  then show ?thesis using assms by (simp add: handleReset_def)
next
  case (TimerFires h)
  then show ?thesis using assms by (simp split: option.splits)
next
  case (GenerateAnswered res)
  then show ?thesis using assms
    by (simp add: handleGenerate_resume_def setInterval_def split: sum.splits)
next
  case (StatusAnswered k res)
  then show ?thesis using assms
    by (auto simp: pollStatus_def Let_def split: fetched.splits parsed.splits option.splits)
qed

lemma done_has_url:
  "\<forall>e\<in>set evs. done_with_url e \<Longrightarrow>
     appState (home (run evs loaded)) = Done \<longrightarrow> videoUrl (home (run evs loaded)) \<noteq> None"
proof (induction evs rule: rev_induct)
  case Nil
  then show ?case by (simp add: run_def loaded_def initial_def)
next
  case (snoc e evs)
  then show ?case using done_url_fire [of "run evs loaded" e]
    by (simp add: run_append run_Cons run_Nil)
qed

text \<open>
  C3. The continuation of \<open>pollStatus\<close> writes the job view whenever its answer arrives;
  clearing the timer withdraws no request already sent. So: two status requests for job
  j1 are in flight; the later one is answered first, with done and the result location;
  the user clicks Generate again and that submission fails, which puts the page into
  \<open>Error\<close> with an error message; then the answer to the earlier status request arrives,
  again done with the result location. The page is now \<open>Done\<close> and holds the result
  location and the error message together. Every read here is one a job that is done
  gives. (The handlers themselves keep the two apart: \<open>handleGenerate\<close> and
  \<open>handleReset\<close> clear both, and a terminal read stops the timer.)
\<close>

theorem late_answer_holds_both:
  "appState (home (run [SetScript sample_script, ClickGenerate, GenerateAnswered (accepted ''j1''),
        TimerFires 0, TimerFires 0,
        StatusAnswered 1 (snapshot st_done 100 (Some ''http://localhost:8000/videos/j1_output.mp4'') None),
        ClickGenerate, GenerateAnswered (Rejected (ErrorObject ''Failed to fetch'')),
        StatusAnswered 0 (snapshot st_done 100 (Some ''http://localhost:8000/videos/j1_output.mp4'') None)]
      loaded)) = Done
   \<and> videoUrl (home (run [SetScript sample_script, ClickGenerate, GenerateAnswered (accepted ''j1''),
        TimerFires 0, TimerFires 0,
        StatusAnswered 1 (snapshot st_done 100 (Some ''http://localhost:8000/videos/j1_output.mp4'') None),
        ClickGenerate, GenerateAnswered (Rejected (ErrorObject ''Failed to fetch'')),
        StatusAnswered 0 (snapshot st_done 100 (Some ''http://localhost:8000/videos/j1_output.mp4'') None)]
      loaded)) = Some ''http://localhost:8000/videos/j1_output.mp4''
   \<and> errorMsg (home (run [SetScript sample_script, ClickGenerate, GenerateAnswered (accepted ''j1''),
        TimerFires 0, TimerFires 0,
        StatusAnswered 1 (snapshot st_done 100 (Some ''http://localhost:8000/videos/j1_output.mp4'') None),
        ClickGenerate, GenerateAnswered (Rejected (ErrorObject ''Failed to fetch'')),
        StatusAnswered 0 (snapshot st_done 100 (Some ''http://localhost:8000/videos/j1_output.mp4'') None)]
      loaded)) = Some ''Failed to fetch''"
proof -
  let ?u = "''http://localhost:8000/videos/j1_output.mp4''"
  let ?rest = "[StatusAnswered 1 (snapshot st_done 100 (Some ?u) None),
        ClickGenerate, GenerateAnswered (Rejected (ErrorObject ''Failed to fetch'')),
        StatusAnswered 0 (snapshot st_done 100 (Some ?u) None)]"
  have split: "run ([SetScript sample_script, ClickGenerate, GenerateAnswered (accepted ''j1''),
        TimerFires 0, TimerFires 0] @ ?rest) loaded
      = run ?rest \<lparr>home = polling, posts = 0, polls = [Defined ''j1'', Defined ''j1'']\<rparr>"
    by (simp only: run_append two_polls_in_flight)
  have 1: "fire (StatusAnswered 1 (snapshot st_done 100 (Some ?u) None))
             \<lparr>home = polling, posts = 0, polls = [Defined ''j1'', Defined ''j1'']\<rparr>
      = \<lparr>home = polling\<lparr>appState := Done, progress := 100, videoUrl := Some ?u,
                   pollRef := None, timers := []\<rparr>,
         posts = 0, polls = [Defined ''j1'']\<rparr>"
    by (simp add: pollStatus_def snapshot_def ok_def Let_def stopPolling_def polling_def)
  have 2: "fire ClickGenerate
             \<lparr>home = polling\<lparr>appState := Done, progress := 100, videoUrl := Some ?u,
                   pollRef := None, timers := []\<rparr>,
              posts = 0, polls = [Defined ''j1'']\<rparr>
      = \<lparr>home = polling\<lparr>appState := Pending, progress := 0, videoUrl := None,
                   statusMessage := ''Submitting job...'', pollRef := None, timers := []\<rparr>,
         posts = 1, polls = [Defined ''j1'']\<rparr>"
    by (simp add: canGenerate_sample start_sample isProcessing_def polling_def stopPolling_def)
  have 3: "fire (GenerateAnswered (Rejected (ErrorObject ''Failed to fetch'')))
             \<lparr>home = polling\<lparr>appState := Pending, progress := 0, videoUrl := None,
                   statusMessage := ''Submitting job...'', pollRef := None, timers := []\<rparr>,
              posts = 1, polls = [Defined ''j1'']\<rparr>
      = \<lparr>home = polling\<lparr>appState := Error, progress := 0, videoUrl := None,
                   errorMsg := Some ''Failed to fetch'',
                   statusMessage := ''Submitting job...'', pollRef := None, timers := []\<rparr>,
         posts = 0, polls = [Defined ''j1'']\<rparr>"
    by (simp add: handleGenerate_resume_def submitted_def message_of_def polling_def)
  have 4: "home (fire (StatusAnswered 0 (snapshot st_done 100 (Some ?u) None))
             \<lparr>home = polling\<lparr>appState := Error, progress := 0, videoUrl := None,
                   errorMsg := Some ''Failed to fetch'',
                   statusMessage := ''Submitting job...'', pollRef := None, timers := []\<rparr>,
              posts = 0, polls = [Defined ''j1'']\<rparr>)
      = polling\<lparr>appState := Done, progress := 100, videoUrl := Some ?u,
                   errorMsg := Some ''Failed to fetch'',
                   statusMessage := ''Submitting job...'', pollRef := None, timers := []\<rparr>"
    by (simp add: pollStatus_def snapshot_def ok_def Let_def stopPolling_def polling_def)
  have "home (run ([SetScript sample_script, ClickGenerate, GenerateAnswered (accepted ''j1''),
        TimerFires 0, TimerFires 0] @ ?rest) loaded)
      = polling\<lparr>appState := Done, progress := 100, videoUrl := Some ?u,
                   errorMsg := Some ''Failed to fetch'',
                   statusMessage := ''Submitting job...'', pollRef := None, timers := []\<rparr>"
    unfolding split by (simp only: run_Cons run_Nil 1 2 3 4)
  then show ?thesis by simp
qed

section \<open>The progress bar\<close>




section \<open>Terminal states\<close>








section \<open>The status proxy and unknown jobs\<close>

lemma map_of_set_property:
  "map_of (set_property k v kvs) k' = (if k' = k then Some v else map_of kvs k')"
  by (induction kvs) auto

lemma map_of_written:
  "map_of (map (map_prod id written) kvs) k = map_option written (map_of kvs k)"
  by (induction kvs) auto

lemma property_written: "property k (written data) = map_option written (property k data)"
  by (cases data) (simp_all add: property_def map_of_written split: number.splits)

lemma plain_written: "plain data \<Longrightarrow> written data = data"
proof (induction data)
  case (JNumber n)
  then show ?case by (cases n) simp_all
next
  case (JArray xs)
  then show ?case by (simp add: list_all_iff map_idI)
next
  case (JObject kvs)
  have "map_prod id written kv = kv" if "kv \<in> set kvs" for kv
  proof -
    obtain k v where kv: "kv = (k, v)" by (cases kv)
    then have "plain v" using that JObject.prems by (auto simp: list_all_iff)
    moreover have "v \<in> Basic_BNFs.snds kv" using kv by simp
    ultimately show ?thesis using JObject.IH [OF that] kv by simp
  qed
  then show ?case by (simp add: map_idI)
qed simp_all

lemma not_ok_502: "\<not> ok 502"
  by (simp add: ok_def)

lemma can_respond_status:
  "NextResponse_json data st
     = (if can_respond st then Value \<lparr>status = st, body = written data\<rparr>
        else if st < 200 \<or> 599 < st then Throws RangeError else Throws TypeError)"
  by (auto simp: NextResponse_json_def can_respond_def)

lemma GET_passes:
  "rewrite_url (status_BACKEND_URL env) data = Value data' \<Longrightarrow> can_respond st \<Longrightarrow>
     fst (GET env job (Response st (Value data))) = \<lparr>status = st, body = written data'\<rparr>"
  by (simp add: GET_def can_respond_status)

lemma GET_fails:
  "(\<exists>t. rewrite_url (status_BACKEND_URL env) data = Throws t) \<or> \<not> can_respond st \<Longrightarrow>
     fst (GET env job (Response st (Value data))) = bad_gateway ''Could not reach the backend.''"
  by (auto simp: GET_def can_respond_status split: parsed.splits)

lemma rewrite_url_throws:
  "(\<exists>t. rewrite_url base data = Throws t) \<longleftrightarrow>
     data = JNull \<or> (\<exists>u. property ''url'' data = Some u \<and> truthy u \<and> (\<forall>s. u \<noteq> JString s))"
  by (auto simp: rewrite_url_def property_def split: json.splits option.splits)

lemma rewrite_url_same:
  "data \<noteq> JNull \<Longrightarrow>
   \<forall>u. property ''url'' data = Some u \<longrightarrow> \<not> truthy u \<or> (\<exists>s. u = JString s \<and> prefix ''http'' s) \<Longrightarrow>
     rewrite_url base data = Value data"
  by (auto simp: rewrite_url_def property_def split: json.splits option.splits)

lemma rewrite_url_relative:
  "map_of kvs ''url'' = Some (JString s) \<Longrightarrow> s \<noteq> [] \<Longrightarrow> \<not> prefix ''http'' s \<Longrightarrow>
     rewrite_url base (JObject kvs)
       = Value (JObject (set_property ''url'' (JString (base @ s)) kvs))"
  by (simp add: rewrite_url_def)

text \<open>
  C6, as stated, fails in both halves. The status route keeps the backend's status only
  when it can pass the body on: a 404 whose body is not JSON is answered with 502. And
  the page does not tell an unknown job from a pending one: on the 404 (here with the
  body of the route's answer, which has none of the members of a status) it returns at
  \<^verbatim>\<open>if (!res.ok) return\<close> ("transient error, keep polling"), which leaves it exactly as a
  read of a pending job at progress 0 does, still \<open>Processing\<close> with its timer running.
\<close>

theorem unknown_job_looks_pending:
  "status (fst (GET None ''nope'' (Response 404 (Throws (ErrorObject ''Unexpected token'')))))
     = 502
   \<and> pollStatus (Defined ''nope'') (Response 404 (Value (Some
        \<lparr>data_status = st_other, data_progress = None, data_message = None, data_url = None,
         data_error = None\<rparr>))) polling
     = pollStatus (Defined ''nope'') (snapshot st_pending 0 None None) polling
   \<and> appState (fst (pollStatus (Defined ''nope'') (Response 404 (Value (Some
        \<lparr>data_status = st_other, data_progress = None, data_message = None, data_url = None,
         data_error = None\<rparr>))) polling)) = Processing
   \<and> pollRef (fst (pollStatus (Defined ''nope'') (Response 404 (Value (Some
        \<lparr>data_status = st_other, data_progress = None, data_message = None, data_url = None,
         data_error = None\<rparr>))) polling)) = Some 0"
  by (simp add: GET_def bad_gateway_def pollStatus_def snapshot_def ok_def Let_def polling_def)

text \<open>
  C6, amended. When the backend answers a status query with a status outside 200..299
  (as for an unknown job), the status route answers with a status outside 200..299 too.
  It is the backend's own status exactly when the backend's body is a JSON value other
  than \<^verbatim>\<open>null\<close> whose \<open>url\<close> member, if truthy, is a string, and the status is one a
  response with a body can carry (200..599 except 204, 205, 304); then a body without a
  \<open>url\<close> member is returned as \<^verbatim>\<open>JSON.stringify\<close> writes it (so a 404 with such a body
  stays a 404). In every other case, and when the body is not JSON or the backend cannot
  be reached, the route answers 502. The page does not read a response that is not ok:
  it leaves its whole state, timer included, as it was and sends its next status request
  on the next tick; it does not set apart an unknown job from one still pending.
\<close>

theorem unknown_job_answer:
  "(\<not> ok st \<longrightarrow> \<not> ok (status (fst (GET env job (Response st b)))))
   \<and> status (fst (GET env job (Response st (Value data))))
       = (if data \<noteq> JNull
             \<and> (\<forall>u. property ''url'' data = Some u \<and> truthy u \<longrightarrow> (\<exists>s. u = JString s))
             \<and> can_respond st
          then st else 502)
   \<and> (data \<noteq> JNull \<and> property ''url'' data = None \<and> can_respond st \<longrightarrow>
        fst (GET env job (Response st (Value data))) = \<lparr>status = st, body = written data\<rparr>)
   \<and> status (fst (GET env job (Response st (Throws t)))) = 502
   \<and> status (fst (GET env job (Rejected t))) = 502
   \<and> (\<not> ok st' \<longrightarrow> pollStatus j (Response st' pb) c = (c, [Get (status_url j)]))"
proof -
  let ?pass = "data \<noteq> JNull
             \<and> (\<forall>u. property ''url'' data = Some u \<and> truthy u \<longrightarrow> (\<exists>s. u = JString s))"
  have thr: "(\<exists>t. rewrite_url (status_BACKEND_URL env) data = Throws t) \<longleftrightarrow> \<not> ?pass"
    using rewrite_url_throws [of "status_BACKEND_URL env" data] by blast
  have s: "status (fst (GET env job (Response st (Value data))))
       = (if data \<noteq> JNull
             \<and> (\<forall>u. property ''url'' data = Some u \<and> truthy u \<longrightarrow> (\<exists>s. u = JString s))
             \<and> can_respond st
          then st else 502)"
  proof (cases "data \<noteq> JNull
             \<and> (\<forall>u. property ''url'' data = Some u \<and> truthy u \<longrightarrow> (\<exists>s. u = JString s))
             \<and> can_respond st")
    case True
    then obtain data' where "rewrite_url (status_BACKEND_URL env) data = Value data'"
      using thr by (cases "rewrite_url (status_BACKEND_URL env) data") auto
    then show ?thesis using True GET_passes [of env data data' st job] by simp
  next
    case False
    then have "(\<exists>t. rewrite_url (status_BACKEND_URL env) data = Throws t) \<or> \<not> can_respond st"
      using thr by blast
    then have "fst (GET env job (Response st (Value data)))
        = bad_gateway ''Could not reach the backend.''"
      by (rule GET_fails)
    then have "status (fst (GET env job (Response st (Value data)))) = 502"
      by (simp add: bad_gateway_def)
    then show ?thesis by (simp only: if_not_P [OF False])
  qed
  have e1: "status (fst (GET env job (Response st (Throws t)))) = 502"
    by (simp add: GET_def bad_gateway_def)
  have e2: "status (fst (GET env job (Rejected t))) = 502"
    by (simp add: GET_def bad_gateway_def)
  have a: "\<not> ok (status (fst (GET env job (Response st b))))" if "\<not> ok st"
  proof (cases b)
    case (Throws t')
    then show ?thesis by (simp add: GET_def bad_gateway_def not_ok_502)
  next
    case (Value data0)
    have "status (fst (GET env job (Response st (Value data0)))) = st
        \<or> status (fst (GET env job (Response st (Value data0)))) = 502"
      by (auto simp: GET_def bad_gateway_def can_respond_status split: parsed.splits)
    then show ?thesis using Value that not_ok_502 by auto
  qed
  have d: "fst (GET env job (Response st (Value data))) = \<lparr>status = st, body = written data\<rparr>"
    if "data \<noteq> JNull" "property ''url'' data = None" "can_respond st"
    using that rewrite_url_same [of data "status_BACKEND_URL env"] GET_passes [of env data data st job]
    by simp
  have c: "pollStatus j (Response st' pb) c = (c, [Get (status_url j)])" if "\<not> ok st'"
    using that by (simp add: pollStatus_def)
  have A: "\<not> ok st \<longrightarrow> \<not> ok (status (fst (GET env job (Response st b))))"
    using a by blast
  have D: "data \<noteq> JNull \<and> property ''url'' data = None \<and> can_respond st \<longrightarrow>
        fst (GET env job (Response st (Value data))) = \<lparr>status = st, body = written data\<rparr>"
    using d by blast
  have C: "\<not> ok st' \<longrightarrow> pollStatus j (Response st' pb) c = (c, [Get (status_url j)])"
    using c by blast
  show ?thesis by (intro conjI A s D e1 e2 C)
qed

theorem unknown_job_answer_witness:
  "fst (GET None ''nope'' (Response 404 (Value (JObject [(''detail'', JString ''Job not found'')]))))
     = \<lparr>status = 404, body = JObject [(''detail'', JString ''Job not found'')]\<rparr>
   \<and> \<not> ok 404
   \<and> pollStatus (Defined ''nope'') (Response 404 (Value None)) polling
       = (polling, [Get ''/api/status/nope''])"
  using unknown_job_answer [of 404 None "''nope''"
      "Value (JObject [(''detail'', JString ''Job not found'')])"
      "JObject [(''detail'', JString ''Job not found'')]" OtherValue 404 "Defined ''nope''"
      "Value None" polling]
  by (simp add: ok_def property_def status_url_def can_respond_def)

section \<open>What the proxy routes return\<close>

text \<open>
  C8, as stated, fails for the status route: it rewrites a relative \<open>url\<close> into an
  absolute one (as its header comment says), so the body returned differs from the body
  received.
\<close>

theorem status_route_rewrites_url:
  "body (fst (GET None ''j1'' (Response 200 (Value (JObject
       [(''status'', JString ''done''), (''progress'', JNumber (Finite 100)),
        (''url'', JString ''/videos/j1_output.mp4'')])))))
   = JObject [(''status'', JString ''done''), (''progress'', JNumber (Finite 100)),
        (''url'', JString ''http://localhost:8000/videos/j1_output.mp4'')]
   \<and> body (fst (GET None ''j1'' (Response 200 (Value (JObject
       [(''status'', JString ''done''), (''progress'', JNumber (Finite 100)),
        (''url'', JString ''/videos/j1_output.mp4'')])))))
   \<noteq> JObject [(''status'', JString ''done''), (''progress'', JNumber (Finite 100)),
        (''url'', JString ''/videos/j1_output.mp4'')]"
  by (simp add: GET_def rewrite_url_def status_BACKEND_URL_def NextResponse_json_def)

text \<open>
  C8, amended. Each route returns the backend's status with a body only when the request
  body (generate route) is JSON other than \<^verbatim>\<open>null\<close>, the backend's body is JSON and the
  status is one a response with a body can carry (200..599 except 204, 205, 304).

  The generate route then returns the backend's value as \<^verbatim>\<open>JSON.stringify\<close> writes it.

  The status route then returns: for a body with a \<open>url\<close> member that is a non-empty
  string not starting with \<^verbatim>\<open>http\<close>, the value with that member replaced by the backend
  base URL followed by the string, every other member as written from the one received;
  for a body other than \<^verbatim>\<open>null\<close> whose \<open>url\<close> member is absent, falsy, or a string
  starting with \<^verbatim>\<open>http\<close>, the value received as written; and for \<^verbatim>\<open>null\<close> or a truthy
  \<open>url\<close> that is not a string, its own 502.

  In all remaining cases each route answers 502 with an error object of its own. What is
  written equals the value received whenever that holds no infinity (a number literal
  beyond the doubles) and no negative zero; those are written as \<^verbatim>\<open>null\<close> and \<^verbatim>\<open>0\<close>.
\<close>

theorem proxy_body:
  "(b \<noteq> JNull \<and> can_respond st \<longrightarrow>
      fst (POST env (Value b) (Response st (Value data))) = \<lparr>status = st, body = written data\<rparr>)
   \<and> (map_of kvs ''url'' = Some (JString s) \<and> s \<noteq> [] \<and> \<not> prefix ''http'' s \<and> can_respond st \<longrightarrow>
        fst (GET env job (Response st (Value (JObject kvs))))
          = \<lparr>status = st,
             body = written (JObject (set_property ''url'' (JString (status_BACKEND_URL env @ s)) kvs))\<rparr>
        \<and> property ''url'' (body (fst (GET env job (Response st (Value (JObject kvs))))))
            = Some (JString (status_BACKEND_URL env @ s))
        \<and> (\<forall>k. k \<noteq> ''url'' \<longrightarrow>
              property k (body (fst (GET env job (Response st (Value (JObject kvs))))))
                = map_option written (map_of kvs k)))
   \<and> (data \<noteq> JNull \<and> can_respond st
        \<and> (\<forall>u. property ''url'' data = Some u \<longrightarrow>
              \<not> truthy u \<or> (\<exists>s'. u = JString s' \<and> prefix ''http'' s')) \<longrightarrow>
        fst (GET env job (Response st (Value data))) = \<lparr>status = st, body = written data\<rparr>)
   \<and> (data = JNull \<or> \<not> can_respond st
        \<or> (\<exists>u. property ''url'' data = Some u \<and> truthy u \<and> (\<forall>s'. u \<noteq> JString s')) \<longrightarrow>
        fst (GET env job (Response st (Value data))) = bad_gateway ''Could not reach the backend.'')
   \<and> fst (GET env job (Response st (Throws t))) = bad_gateway ''Could not reach the backend.''
   \<and> fst (GET env job (Rejected t)) = bad_gateway ''Could not reach the backend.''
   \<and> (\<not> can_respond st \<longrightarrow>
        fst (POST env (Value b) (Response st (Value data)))
          = bad_gateway ''Could not reach the backend. Is it running?'')
   \<and> fst (POST env (Value JNull) upstream) = bad_gateway ''Could not reach the backend. Is it running?''
   \<and> fst (POST env (Throws t) upstream) = bad_gateway ''Could not reach the backend. Is it running?''
   \<and> fst (POST env (Value b) (Response st (Throws t)))
        = bad_gateway ''Could not reach the backend. Is it running?''
   \<and> fst (POST env (Value b) (Rejected t)) = bad_gateway ''Could not reach the backend. Is it running?''
   \<and> (plain data \<longrightarrow> written data = data)"
proof -
  let ?B = "status_BACKEND_URL env"
  have p1: "fst (POST env (Value b) (Response st (Value data))) = \<lparr>status = st, body = written data\<rparr>"
    if "b \<noteq> JNull" "can_respond st"
    using that by (cases b) (simp_all add: POST_def can_respond_status)
  have g1: "fst (GET env job (Response st (Value (JObject kvs))))
          = \<lparr>status = st, body = written (JObject (set_property ''url'' (JString (?B @ s)) kvs))\<rparr>"
    if "map_of kvs ''url'' = Some (JString s)" "s \<noteq> []" "\<not> prefix ''http'' s" "can_respond st"
    using that rewrite_url_relative [of kvs s ?B] GET_passes [of env "JObject kvs" _ st job]
    by simp
  have g1u: "property ''url'' (written (JObject (set_property ''url'' (JString (?B @ s)) kvs)))
      = Some (JString (?B @ s))"
    by (simp add: property_def map_of_written map_of_set_property)
  have g1k: "property k (written (JObject (set_property ''url'' (JString (?B @ s)) kvs)))
      = map_option written (map_of kvs k)" if "k \<noteq> ''url''" for k
    using that by (simp add: property_def map_of_written map_of_set_property)
  have g2: "fst (GET env job (Response st (Value data))) = \<lparr>status = st, body = written data\<rparr>"
    if "data \<noteq> JNull" "can_respond st"
      "\<forall>u. property ''url'' data = Some u \<longrightarrow> \<not> truthy u \<or> (\<exists>s'. u = JString s' \<and> prefix ''http'' s')"
    using that rewrite_url_same [of data ?B] GET_passes [of env data data st job] by simp
  have g3: "fst (GET env job (Response st (Value data))) = bad_gateway ''Could not reach the backend.''"
    if "data = JNull \<or> \<not> can_respond st
        \<or> (\<exists>u. property ''url'' data = Some u \<and> truthy u \<and> (\<forall>s'. u \<noteq> JString s'))"
  proof -
    have "(\<exists>t. rewrite_url ?B data = Throws t) \<or> \<not> can_respond st"
      using that rewrite_url_throws [of ?B data] by blast
    then show ?thesis by (rule GET_fails)
  qed
  have g4: "fst (GET env job (Response st (Throws t))) = bad_gateway ''Could not reach the backend.''"
    by (simp add: GET_def)
  have g5: "fst (GET env job (Rejected t)) = bad_gateway ''Could not reach the backend.''"
    by (simp add: GET_def)
  have p2: "fst (POST env (Value b) (Response st (Value data)))
          = bad_gateway ''Could not reach the backend. Is it running?''" if "\<not> can_respond st"
    using that by (cases b) (simp_all add: POST_def can_respond_status)
  have p3: "fst (POST env (Value JNull) upstream)
      = bad_gateway ''Could not reach the backend. Is it running?''"
    by (simp add: POST_def)
  have p4: "fst (POST env (Throws t) upstream)
      = bad_gateway ''Could not reach the backend. Is it running?''"
    by (simp add: POST_def)
  have p5: "fst (POST env (Value b) (Response st (Throws t)))
        = bad_gateway ''Could not reach the backend. Is it running?''"
    by (cases b) (simp_all add: POST_def)
  have p6: "fst (POST env (Value b) (Rejected t))
      = bad_gateway ''Could not reach the backend. Is it running?''"
    by (cases b) (simp_all add: POST_def)
  have w: "plain data \<longrightarrow> written data = data"
    using plain_written by blast
  have G1: "map_of kvs ''url'' = Some (JString s) \<and> s \<noteq> [] \<and> \<not> prefix ''http'' s \<and> can_respond st \<longrightarrow>
        fst (GET env job (Response st (Value (JObject kvs))))
          = \<lparr>status = st,
             body = written (JObject (set_property ''url'' (JString (?B @ s)) kvs))\<rparr>
        \<and> property ''url'' (body (fst (GET env job (Response st (Value (JObject kvs))))))
            = Some (JString (?B @ s))
        \<and> (\<forall>k. k \<noteq> ''url'' \<longrightarrow>
              property k (body (fst (GET env job (Response st (Value (JObject kvs))))))
                = map_option written (map_of kvs k))"
  proof (intro impI)
    assume h: "map_of kvs ''url'' = Some (JString s) \<and> s \<noteq> [] \<and> \<not> prefix ''http'' s \<and> can_respond st"
    then have e: "fst (GET env job (Response st (Value (JObject kvs))))
          = \<lparr>status = st, body = written (JObject (set_property ''url'' (JString (?B @ s)) kvs))\<rparr>"
      using g1 by blast
    show "fst (GET env job (Response st (Value (JObject kvs))))
          = \<lparr>status = st,
             body = written (JObject (set_property ''url'' (JString (?B @ s)) kvs))\<rparr>
        \<and> property ''url'' (body (fst (GET env job (Response st (Value (JObject kvs))))))
            = Some (JString (?B @ s))
        \<and> (\<forall>k. k \<noteq> ''url'' \<longrightarrow>
              property k (body (fst (GET env job (Response st (Value (JObject kvs))))))
                = map_option written (map_of kvs k))"
      unfolding e using g1u g1k by simp
  qed
  show ?thesis
    using p1 G1 g2 g3 g4 g5 p2 p3 p4 p5 p6 w by blast
qed

theorem proxy_body_witness:
  "fst (POST None (Value (JObject [(''text'', JString ''Hi'')]))
         (Response 200 (Value (JObject
            [(''status'', JString ''done''), (''url'', JString ''/videos/j1_output.mp4'')]))))
     = \<lparr>status = 200, body = JObject
            [(''status'', JString ''done''), (''url'', JString ''/videos/j1_output.mp4'')]\<rparr>
   \<and> fst (GET None ''j1'' (Response 200 (Value (JObject
         [(''status'', JString ''done''), (''url'', JString ''/videos/j1_output.mp4'')]))))
     = \<lparr>status = 200, body = JObject
         [(''status'', JString ''done''), (''url'', JString ''http://localhost:8000/videos/j1_output.mp4'')]\<rparr>
   \<and> fst (GET None ''j1'' (Response 200 (Value JNull)))
     = bad_gateway ''Could not reach the backend.''"
proof -
  note T = proxy_body [where b = "JObject [(''text'', JString ''Hi'')]" and env = None
        and st = 200 and job = "''j1''" and t = OtherValue and s = "''/videos/j1_output.mp4''"
        and kvs = "[(''status'', JString ''done''), (''url'', JString ''/videos/j1_output.mp4'')]"
        and data = "JObject [(''status'', JString ''done''), (''url'', JString ''/videos/j1_output.mp4'')]"]
  note N = proxy_body [where env = None and st = 200 and job = "''j1''" and data = JNull]
  have c: "can_respond 200" by (simp add: can_respond_def)
  have a: "fst (POST None (Value (JObject [(''text'', JString ''Hi'')]))
         (Response 200 (Value (JObject
            [(''status'', JString ''done''), (''url'', JString ''/videos/j1_output.mp4'')]))))
     = \<lparr>status = 200, body = written (JObject
            [(''status'', JString ''done''), (''url'', JString ''/videos/j1_output.mp4'')])\<rparr>"
    using T c by blast
  have h: "map_of [(''status'', JString ''done''), (''url'', JString ''/videos/j1_output.mp4'')] ''url''
        = Some (JString ''/videos/j1_output.mp4'')
      \<and> ''/videos/j1_output.mp4'' \<noteq> [] \<and> \<not> prefix ''http'' ''/videos/j1_output.mp4''
      \<and> can_respond 200"
    using c by simp
  have b: "fst (GET None ''j1'' (Response 200 (Value (JObject
         [(''status'', JString ''done''), (''url'', JString ''/videos/j1_output.mp4'')]))))
     = \<lparr>status = 200, body = written (JObject (set_property ''url''
           (JString (status_BACKEND_URL None @ ''/videos/j1_output.mp4''))
           [(''status'', JString ''done''), (''url'', JString ''/videos/j1_output.mp4'')]))\<rparr>"
    using T h by blast
  have n: "fst (GET None ''j1'' (Response 200 (Value JNull)))
     = bad_gateway ''Could not reach the backend.''"
    using N by blast
  show ?thesis using a b n by (simp add: status_BACKEND_URL_def)
qed

section \<open>What the generate route sends\<close>

text \<open>
  For every request body other than \<^verbatim>\<open>null\<close> the route sends one POST to
  \<^verbatim>\<open>BACKEND_URL/jobs\<close> whose body has the member \<open>text\<close> of the request body and nothing
  else; and a configured URL that does not start with \<^verbatim>\<open>http\<close> gets \<^verbatim>\<open>https://\<close> put in
  front.
\<close>

lemma forwarded_members:
  "property k (forwarded b)
     = (if k = ''text'' then map_option written (property ''text'' b) else None)"
  by (simp add: forwarded_def property_def split: option.splits)

lemma POST_forwards:
  "b \<noteq> JNull \<Longrightarrow>
     snd (POST env (Value b) upstream) = [Post (BACKEND_URL env @ ''/jobs'') (forwarded b)]"
  by (cases b) (simp_all add: POST_def)

lemma BACKEND_URL_adds_https:
  "\<not> prefix ''http'' (raw env) \<Longrightarrow> BACKEND_URL env = ''https://'' @ raw env"
  by (simp add: BACKEND_URL_def)

text \<open>
  C10. The test \<^verbatim>\<open>raw.startsWith("http")\<close> looks for the four letters only, not for a
  protocol. A configured bare host name that begins with them, such as \<^verbatim>\<open>httpbin.org\<close>,
  is therefore left as it is: the base URL the route targets then carries neither
  \<^verbatim>\<open>http://\<close> nor \<^verbatim>\<open>https://\<close>, against the comment above the constant ("Ensure the URL
  always has a protocol prefix so fetch() doesn't throw"). The body forwarded is still
  the object with the \<open>text\<close> member alone.
\<close>

theorem bare_host_starting_with_http:
  "BACKEND_URL (Some ''httpbin.org'') = ''httpbin.org''
   \<and> \<not> prefix ''http://'' (BACKEND_URL (Some ''httpbin.org''))
   \<and> \<not> prefix ''https://'' (BACKEND_URL (Some ''httpbin.org''))
   \<and> snd (POST (Some ''httpbin.org'')
        (Value (JObject [(''text'', JString ''Hi''), (''voice'', JString ''onyx'')]))
        (Rejected (ErrorObject ''Invalid URL'')))
      = [Post ''httpbin.org/jobs'' (JObject [(''text'', JString ''Hi'')])]"
  by (simp add: BACKEND_URL_def raw_def POST_def forwarded_def property_def)

section \<open>Caption timing\<close>

text \<open>
  C7. For a non-empty word list (N words) and a positive duration D, the Caption Timer
  succeeds with exactly N cues; cue \<open>i\<close> carries word \<open>i\<close> and spans from \<open>i * D / N\<close> to
  \<open>(i + 1) * D / N\<close>; starts and ends are non-decreasing along the sequence, each cue ends
  no later than the next one starts, and the last cue ends at D exactly.
\<close>

theorem caption_cues:
  assumes "words \<noteq> []" and "0 < D"
  shows "\<exists>cues. computeCues words D = Inr cues \<and> length cues = length words
     \<and> (\<forall>i<length words. word (cues ! i) = words ! i
           \<and> startSeconds (cues ! i) = of_nat i * D / of_nat (length words)
           \<and> endSeconds (cues ! i) = of_nat (i + 1) * D / of_nat (length words)
           \<and> startSeconds (cues ! i) \<le> endSeconds (cues ! i))
     \<and> (\<forall>i. i + 1 < length words \<longrightarrow>
           startSeconds (cues ! i) \<le> startSeconds (cues ! (i + 1))
           \<and> endSeconds (cues ! i) \<le> endSeconds (cues ! (i + 1))
           \<and> endSeconds (cues ! i) \<le> startSeconds (cues ! (i + 1)))
     \<and> endSeconds (last cues) = D"
proof -
  let ?N = "length words"
  let ?f = "\<lambda>i. \<lparr>word = words ! i, startSeconds = of_nat i * D / of_nat ?N,
                 endSeconds = (if i + 1 = ?N then D else of_nat (i + 1) * D / of_nat ?N)\<rparr>"
  let ?cues = "map ?f [0..<?N]"
  have N: "0 < ?N" using assms(1) by simp
  have eq: "computeCues words D = Inr ?cues"
    using N by (simp add: computeCues_def Let_def)
  have full: "of_nat ?N * D / of_nat ?N = D" using N by simp
  have w: "word (?cues ! i) = words ! i" if "i < ?N" for i using that by simp
  have st: "startSeconds (?cues ! i) = of_nat i * D / of_nat ?N" if "i < ?N" for i
    using that by simp
  have en: "endSeconds (?cues ! i) = of_nat (i + 1) * D / of_nat ?N" if "i < ?N" for i
  proof (cases "i + 1 = ?N")
    case True
    then have "endSeconds (?cues ! i) = D" using that by simp
    then show ?thesis using full True by (simp del: of_nat_Suc of_nat_add)
  next
    case False
    then show ?thesis using that by simp
  qed
  have mono: "of_nat i * D / of_nat ?N \<le> of_nat k * D / of_nat ?N" if "i \<le> k" for i k :: nat
    using that assms(2) N by (simp add: divide_le_cancel mult_right_mono)
  have 1: "word (?cues ! i) = words ! i
           \<and> startSeconds (?cues ! i) = of_nat i * D / of_nat ?N
           \<and> endSeconds (?cues ! i) = of_nat (i + 1) * D / of_nat ?N
           \<and> startSeconds (?cues ! i) \<le> endSeconds (?cues ! i)" if "i < ?N" for i
    using w [OF that] st [OF that] en [OF that] mono [of i "i + 1"] by simp
  have 2: "startSeconds (?cues ! i) \<le> startSeconds (?cues ! (i + 1))
           \<and> endSeconds (?cues ! i) \<le> endSeconds (?cues ! (i + 1))
           \<and> endSeconds (?cues ! i) \<le> startSeconds (?cues ! (i + 1))" if "i + 1 < ?N" for i
  proof -
    have i: "i < ?N" using that by simp
    show ?thesis
      using st [OF i] st [OF that] en [OF i] en [OF that]
        mono [of i "i + 1"] mono [of "i + 1" "i + 1 + 1"]
      by simp
  qed
  have 3: "endSeconds (last ?cues) = D"
  proof -
    have "?cues \<noteq> []" using N by simp
    then have "last ?cues = ?cues ! (?N - 1)" by (simp add: last_conv_nth)
    then have "endSeconds (last ?cues) = of_nat (?N - 1 + 1) * D / of_nat ?N"
      using en [of "?N - 1"] N by simp
    then show ?thesis using full N by simp
  qed
  have "length ?cues = ?N" by simp
  then show ?thesis using eq 1 2 3 by blast
qed

theorem caption_cues_witness:
  "computeCues [''Hello'', ''world''] 3
     = Inr [\<lparr>word = ''Hello'', startSeconds = 0, endSeconds = 3 / 2\<rparr>,
            \<lparr>word = ''world'', startSeconds = 3 / 2, endSeconds = 3\<rparr>]
   \<and> (\<exists>cues. computeCues [''Hello'', ''world''] 3 = Inr cues \<and> length cues = 2
         \<and> endSeconds (last cues) = 3)"
proof -
  have v: "computeCues [''Hello'', ''world''] 3
     = Inr [\<lparr>word = ''Hello'', startSeconds = 0, endSeconds = 3 / 2\<rparr>,
            \<lparr>word = ''world'', startSeconds = 3 / 2, endSeconds = 3\<rparr>]"
    by (simp add: computeCues_def Let_def upt_conv_Cons)
  obtain cues where "computeCues [''Hello'', ''world''] 3 = Inr cues" "length cues = 2"
      "endSeconds (last cues) = 3"
    using caption_cues [of "[''Hello'', ''world'']" 3] by auto
  then show ?thesis using v by auto
qed

end
